theory Spec2Isabelle
  imports Main
begin

section \<open>BucketPolicyMember controller (pkg/controller/storage/bucketpolicymember.go)\<close>

text \<open>
  The file under verification is the external client of the BucketPolicyMember
  controller: the four verbs \<open>Observe\<close>, \<open>Create\<close>, \<open>Update\<close> and \<open>Delete\<close> of
  \<open>bucketPolicyMemberExternal\<close>. Each verb talks to the bucket IAM service through the
  interface \<open>bucketpolicy.Client\<close> and decides what to do with the two helpers
  \<open>bucketpolicy.BindRoleToMember\<close> and \<open>bucketpolicy.UnbindRoleFromMember\<close>.
\<close>

subsection \<open>Data\<close>

text \<open>
  Modelled from the spec: the type \<open>storage.Policy\<close> is declared outside the source
  file. Section 3 of the specification describes it as a version token together with a
  mapping from each role to the set of its members.
\<close>

record Policy =
  etag :: string
  bindings :: "string \<rightharpoonup> string set"

text \<open>
  Modelled from the spec: \<open>v1alpha1.BucketPolicyMemberParameters\<close> is declared outside
  the source file. The source reads its field \<open>Bucket\<close> through \<open>gcp.StringValue\<close>, so
  it is a string pointer (\<open>None\<close> is the nil pointer); role and member are the strings
  of the specification's DesiredBinding.
\<close>

record BucketPolicyMemberParameters =
  Bucket :: "string option"
  Role :: string
  Member :: string

text \<open>
  The custom resource. Only \<open>Spec.ForProvider\<close> and \<open>Status\<close> are touched by the
  source; the status is left abstract (type \<open>'s\<close>), the source only ever hands it to
  \<open>SetConditions\<close>.
\<close>

record 's BucketPolicyMember =
  ForProvider :: BucketPolicyMemberParameters
  Status :: 's

text \<open>
  \<open>resource.Managed\<close> is an interface; every verb starts with the type assertion
  \<open>mg.(*v1alpha1.BucketPolicyMember)\<close>, which has exactly two outcomes.
\<close>

datatype 's Managed =
    IsBucketPolicyMember "'s BucketPolicyMember"
  | NotBucketPolicyMember

text \<open>
  Go errors. \<open>New\<close> and \<open>Wrap\<close> are \<open>errors.New\<close> and \<open>errors.Wrap\<close>; the remaining
  constructors are the failures a policy client can report (specification, 4.1 and 7).
  A nil error is \<open>None\<close> of type \<open>error option\<close>.
\<close>

datatype error =
    New string
  | Wrap error string
  | NotFound
  | PermissionDenied
  | RemoteUnavailable
  | VersionConflict

text \<open>\<open>managed.ExternalObservation\<close>: the two fields the source sets.\<close>

record ExternalObservation =
  ResourceExists :: bool
  ResourceUpToDate :: bool

text \<open>
  \<open>managed.ExternalCreation{}\<close> and \<open>managed.ExternalUpdate{}\<close>: the source only ever
  returns their zero values.
\<close>

datatype ExternalCreation = ExternalCreation

datatype ExternalUpdate = ExternalUpdate

text \<open>The zero value \<open>managed.ExternalObservation{}\<close>.\<close>

definition zeroObservation :: ExternalObservation where
  "zeroObservation = \<lparr>ResourceExists = False, ResourceUpToDate = False\<rparr>"

subsection \<open>The policy client and the record of remote calls\<close>

text \<open>
  \<open>bucketpolicy.Client\<close> is an interface with the two call builders
  \<open>GetIamPolicy(bucket).OptionsRequestedPolicyVersion(v).Context(ctx).Do()\<close> and
  \<open>SetIamPolicy(bucket, policy).Context(ctx).Do()\<close>. An implementation is any pair of
  functions over a remote state \<open>'w\<close>; each returns an error or a policy, and the next
  remote state.
\<close>

record ('c, 'w) Client =
  GetIamPolicy :: "string \<Rightarrow> int \<Rightarrow> 'c \<Rightarrow> 'w \<Rightarrow> (error + Policy) \<times> 'w"
  SetIamPolicy :: "string \<Rightarrow> Policy \<Rightarrow> 'c \<Rightarrow> 'w \<Rightarrow> (error + Policy) \<times> 'w"

text \<open>
  One entry per remote call issued: the arguments it carried and what the client
  answered.
\<close>

datatype 'c Call =
    GetCall string int 'c "error + Policy"
  | SetCall string Policy 'c "error + Policy"

record ('c, 'w) Remote =
  calls :: "'c Call list"
  world :: 'w

definition GetIamPolicy_Do ::
  "('c, 'w) Client \<Rightarrow> string \<Rightarrow> int \<Rightarrow> 'c \<Rightarrow> ('c, 'w) Remote \<Rightarrow> (error + Policy) \<times> ('c, 'w) Remote" where
  "GetIamPolicy_Do e bucket v ctx r =
     (case GetIamPolicy e bucket v ctx (world r) of
        (res, w') \<Rightarrow> (res, \<lparr>calls = calls r @ [GetCall bucket v ctx res], world = w'\<rparr>))"

definition SetIamPolicy_Do ::
  "('c, 'w) Client \<Rightarrow> string \<Rightarrow> Policy \<Rightarrow> 'c \<Rightarrow> ('c, 'w) Remote \<Rightarrow> (error + Policy) \<times> ('c, 'w) Remote" where
  "SetIamPolicy_Do e bucket p ctx r =
     (case SetIamPolicy e bucket p ctx (world r) of
        (res, w') \<Rightarrow> (res, \<lparr>calls = calls r @ [SetCall bucket p ctx res], world = w'\<rparr>))"

text \<open>The calls a verb issued: what it appended to the record it started from.\<close>

definition issued :: "('c, 'w) Remote \<Rightarrow> ('c, 'w) Remote \<Rightarrow> 'c Call list" where
  "issued r r' = drop (length (calls r)) (calls r')"

fun isSetCall :: "'c Call \<Rightarrow> bool" where
  "isSetCall (SetCall b p c res) = True"
| "isSetCall (GetCall b v c res) = False"

text \<open>The policy versions requested by the fetches of a call record, in order.\<close>

fun requestedVersions :: "'c Call list \<Rightarrow> int list" where
  "requestedVersions [] = []"
| "requestedVersions (GetCall b v c res # cs) = v # requestedVersions cs"
| "requestedVersions (SetCall b p c res # cs) = requestedVersions cs"

subsection \<open>Declarations the source file uses from other packages\<close>

text \<open>
  The source refers to constants and helpers declared elsewhere: \<open>gcp.StringValue\<close>,
  \<open>iamv1alpha1.PolicyVersion\<close>, the messages \<open>errGetPolicy\<close> and \<open>errSetPolicy\<close>, the two
  helpers of package \<open>bucketpolicy\<close>, and \<open>cr.Status.SetConditions(xpv1.Available())\<close>.
  The verbs take them as a parameter, so that what is proved about the verbs holds for
  every such declaration. The helpers mutate the policy they are given through its
  pointer and return whether they changed it: here they return the flag and the policy
  after the call.
\<close>

record 's Pkg =
  StringValue :: "string option \<Rightarrow> string"
  PolicyVersion :: int
  errGetPolicy :: string
  errSetPolicy :: string
  BindRoleToMember :: "BucketPolicyMemberParameters \<Rightarrow> Policy \<Rightarrow> bool \<times> Policy"
  UnbindRoleFromMember :: "BucketPolicyMemberParameters \<Rightarrow> Policy \<Rightarrow> bool \<times> Policy"
  SetConditionsAvailable :: "'s \<Rightarrow> 's"

definition errNotBucketPolicyMember :: string where
  "errNotBucketPolicyMember = ''managed resource is not a GCP BucketPolicyMember''"

subsection \<open>The four verbs\<close>

text \<open>
  Each verb returns its Go results, the managed resource after the call (\<open>Observe\<close>
  writes to \<open>cr.Status\<close> through the pointer) and the remote after the call.
\<close>

definition Observe ::
  "'s Pkg \<Rightarrow> ('c, 'w) Client \<Rightarrow> 'c \<Rightarrow> 's Managed \<Rightarrow> ('c, 'w) Remote
     \<Rightarrow> (ExternalObservation \<times> error option) \<times> 's Managed \<times> ('c, 'w) Remote" where
  "Observe pkg e ctx mg r =
     (case mg of
        NotBucketPolicyMember \<Rightarrow>
          ((zeroObservation, Some (New errNotBucketPolicyMember)), mg, r)
      | IsBucketPolicyMember cr \<Rightarrow>
          (case GetIamPolicy_Do e (StringValue pkg (Bucket (ForProvider cr)))
                  (PolicyVersion pkg) ctx r of
             (Inl err, r') \<Rightarrow>
               ((zeroObservation, Some (Wrap err (errGetPolicy pkg))), mg, r')
           | (Inr policy, r') \<Rightarrow>
               (case BindRoleToMember pkg (ForProvider cr) policy of
                  (changed, policy') \<Rightarrow>
                    if \<not> changed then
                      ((\<lparr>ResourceExists = True, ResourceUpToDate = True\<rparr>, None),
                       IsBucketPolicyMember
                         (cr\<lparr>Status := SetConditionsAvailable pkg (Status cr)\<rparr>),
                       r')
                    else ((zeroObservation, None), mg, r'))))"

definition Create ::
  "'s Pkg \<Rightarrow> ('c, 'w) Client \<Rightarrow> 'c \<Rightarrow> 's Managed \<Rightarrow> ('c, 'w) Remote
     \<Rightarrow> (ExternalCreation \<times> error option) \<times> 's Managed \<times> ('c, 'w) Remote" where
  "Create pkg e ctx mg r =
     (case mg of
        NotBucketPolicyMember \<Rightarrow> ((ExternalCreation, Some (New errNotBucketPolicyMember)), mg, r)
      | IsBucketPolicyMember cr \<Rightarrow>
          (case GetIamPolicy_Do e (StringValue pkg (Bucket (ForProvider cr)))
                  (PolicyVersion pkg) ctx r of
             (Inl err, r') \<Rightarrow> ((ExternalCreation, Some (Wrap err (errGetPolicy pkg))), mg, r')
           | (Inr policy, r') \<Rightarrow>
               (case BindRoleToMember pkg (ForProvider cr) policy of
                  (changed, policy') \<Rightarrow>
                    if \<not> changed then ((ExternalCreation, None), mg, r')
                    else
                      (case SetIamPolicy_Do e (StringValue pkg (Bucket (ForProvider cr)))
                              policy' ctx r' of
                         (Inl err, r'') \<Rightarrow>
                           ((ExternalCreation, Some (Wrap err (errSetPolicy pkg))), mg, r'')
                       | (Inr written, r'') \<Rightarrow> ((ExternalCreation, None), mg, r'')))))"

definition Update ::
  "'s Pkg \<Rightarrow> ('c, 'w) Client \<Rightarrow> 'c \<Rightarrow> 's Managed \<Rightarrow> ('c, 'w) Remote
     \<Rightarrow> (ExternalUpdate \<times> error option) \<times> 's Managed \<times> ('c, 'w) Remote" where
  "Update pkg e ctx mg r =
     (case Create pkg e ctx mg r of
        ((creation, err), mg', r') \<Rightarrow> ((ExternalUpdate, err), mg', r'))"

definition Delete ::
  "'s Pkg \<Rightarrow> ('c, 'w) Client \<Rightarrow> 'c \<Rightarrow> 's Managed \<Rightarrow> ('c, 'w) Remote
     \<Rightarrow> error option \<times> 's Managed \<times> ('c, 'w) Remote" where
  "Delete pkg e ctx mg r =
     (case mg of
        NotBucketPolicyMember \<Rightarrow> (Some (New errNotBucketPolicyMember), mg, r)
      | IsBucketPolicyMember cr \<Rightarrow>
          (case GetIamPolicy_Do e (StringValue pkg (Bucket (ForProvider cr)))
                  (PolicyVersion pkg) ctx r of
             (Inl err, r') \<Rightarrow> (Some (Wrap err (errGetPolicy pkg)), mg, r')
           | (Inr policy, r') \<Rightarrow>
               (case UnbindRoleFromMember pkg (ForProvider cr) policy of
                  (changed, policy') \<Rightarrow>
                    if \<not> changed then (None, mg, r')
                    else
                      (case SetIamPolicy_Do e (StringValue pkg (Bucket (ForProvider cr)))
                              policy' ctx r' of
                         (Inl err, r'') \<Rightarrow> (Some (Wrap err (errSetPolicy pkg)), mg, r'')
                       | (Inr written, r'') \<Rightarrow> (None, mg, r'')))))"

subsection \<open>The membership resolver\<close>

text \<open>
  Modelled from the spec: \<open>bucketpolicy.BindRoleToMember\<close> is declared in package
  \<open>pkg/clients/bucketpolicy\<close>, outside the source file. Specification 4.2,
  \<open>ensurePresent\<close>: look up the role; if the member is already an element, return the
  document unchanged with \<open>changed = false\<close>; otherwise insert the member into that
  role's set, creating the role entry if it is absent, and return \<open>changed = true\<close>.
\<close>

definition ensurePresent :: "BucketPolicyMemberParameters \<Rightarrow> Policy \<Rightarrow> bool \<times> Policy" where
  "ensurePresent b d =
     (case bindings d (Role b) of
        None \<Rightarrow> (True, d\<lparr>bindings := (bindings d)(Role b \<mapsto> {Member b})\<rparr>)
      | Some ms \<Rightarrow>
          if Member b \<in> ms then (False, d)
          else (True, d\<lparr>bindings := (bindings d)(Role b \<mapsto> insert (Member b) ms)\<rparr>))"

text \<open>
  Modelled from the spec: \<open>bucketpolicy.UnbindRoleFromMember\<close> is declared in package
  \<open>pkg/clients/bucketpolicy\<close>, outside the source file. Specification 4.2,
  \<open>ensureAbsent\<close>: look up the role; if the member is not present, return the document
  unchanged with \<open>changed = false\<close>; otherwise remove it, prune the role entry if its
  member set becomes empty, and return \<open>changed = true\<close>.
\<close>

definition ensureAbsent :: "BucketPolicyMemberParameters \<Rightarrow> Policy \<Rightarrow> bool \<times> Policy" where
  "ensureAbsent b d =
     (case bindings d (Role b) of
        None \<Rightarrow> (False, d)
      | Some ms \<Rightarrow>
          if Member b \<notin> ms then (False, d)
          else if ms - {Member b} = {} then
            (True, d\<lparr>bindings := (bindings d)(Role b := None)\<rparr>)
          else (True, d\<lparr>bindings := (bindings d)(Role b \<mapsto> ms - {Member b})\<rparr>))"

subsection \<open>One package and one store, for running the verbs\<close>

text \<open>
  An instance of the outside declarations, with the resolver of the specification:
  \<open>StringValue\<close> reads a nil pointer as the empty string, and the status is a list
  of condition names.
\<close>

definition samplePkg :: "string list Pkg" where
  "samplePkg =
     \<lparr>StringValue = (\<lambda>p. case p of None \<Rightarrow> [] | Some s \<Rightarrow> s),
      PolicyVersion = 3,
      errGetPolicy = ''cannot get policy'',
      errSetPolicy = ''cannot set policy'',
      BindRoleToMember = ensurePresent,
      UnbindRoleFromMember = ensureAbsent,
      SetConditionsAvailable =
        (\<lambda>s. if ''Available'' \<in> set s then s else s @ [''Available''])\<rparr>"

text \<open>
  An in-memory policy store following the PolicyClient contract of the specification
  (4.1): a fetch of an unknown bucket fails with \<open>NotFound\<close>, a replace is accepted
  only when it carries the version token of the stored document.
\<close>

definition memStore :: "(unit, string \<rightharpoonup> Policy) Client" where
  "memStore =
     \<lparr>GetIamPolicy = (\<lambda>b v ctx w.
        case w b of None \<Rightarrow> (Inl NotFound, w) | Some d \<Rightarrow> (Inr d, w)),
      SetIamPolicy = (\<lambda>b p ctx w.
        case w b of
          None \<Rightarrow> (Inl NotFound, w)
        | Some d \<Rightarrow>
            if etag d = etag p then (Inr p, w(b \<mapsto> p)) else (Inl VersionConflict, w))\<rparr>"

definition viewerA :: "string list BucketPolicyMember" where
  "viewerA =
     \<lparr>ForProvider = \<lparr>Bucket = Some ''b'', Role = ''viewer'', Member = ''user:a''\<rparr>,
      Status = []\<rparr>"

definition docEmpty :: Policy where
  "docEmpty = \<lparr>etag = ''t1'', bindings = Map.empty\<rparr>"

definition docViewerA :: Policy where
  "docViewerA = \<lparr>etag = ''t1'', bindings = [''viewer'' \<mapsto> {''user:a''}]\<rparr>"

definition startAt :: "(string \<rightharpoonup> Policy) \<Rightarrow> (unit, string \<rightharpoonup> Policy) Remote" where
  "startAt w = \<lparr>calls = [], world = w\<rparr>"

definition noBucket :: "string \<rightharpoonup> Policy" where
  "noBucket = Map.empty"

definition oneBucket :: "Policy \<Rightarrow> string \<rightharpoonup> Policy" where
  "oneBucket d = [''b'' \<mapsto> d]"

text \<open>
  The same store under contention: every replace arrives after another writer's and is
  rejected.
\<close>

definition contendedStore :: "(unit, string \<rightharpoonup> Policy) Client" where
  "contendedStore =
     memStore\<lparr>SetIamPolicy := (\<lambda>b p ctx w. (Inl VersionConflict, w))\<rparr>"

subsection \<open>Vocabulary of the properties\<close>

text \<open>\<open>gcp.StringValue(cr.Spec.ForProvider.Bucket)\<close>, the bucket every call names.\<close>

abbreviation bucketName :: "'s Pkg \<Rightarrow> 's BucketPolicyMember \<Rightarrow> string" where
  "bucketName pkg cr \<equiv> StringValue pkg (Bucket (ForProvider cr))"

text \<open>A resolver keeps the version token when it never writes to the \<open>etag\<close> field.\<close>

definition keepsToken ::
  "(BucketPolicyMemberParameters \<Rightarrow> Policy \<Rightarrow> bool \<times> Policy) \<Rightarrow> bool" where
  "keepsToken f = (\<forall>p d. etag (snd (f p d)) = etag d)"

text \<open>
  Modelled from the spec: the representation versions of the access-policy store are
  outside the source file. Specification 4.1 and 6: a fetch names the representation
  version it wants, and the store supports several of them, at least one.
\<close>

record StoreVersions =
  someVersion :: int
  otherVersions :: "int list"

definition supportedVersions :: "StoreVersions \<Rightarrow> int list" where
  "supportedVersions s = someVersion s # otherVersions s"

text \<open>
  Modelled from the spec: the constant \<open>iamv1alpha1.PolicyVersion\<close> is declared in
  \<open>apis/iam/v1alpha1\<close>, outside the source file. Specification 4.1 and 6: the requested
  version must be the store's richest supported representation, that is, the greatest
  of the versions the store supports.
\<close>

definition specPolicyVersion :: "StoreVersions \<Rightarrow> int" where
  "specPolicyVersion s = fold max (otherVersions s) (someVersion s)"

text \<open>A version is the richest a store supports: it is supported, and none is greater.\<close>

definition richestSupported :: "StoreVersions \<Rightarrow> int \<Rightarrow> bool" where
  "richestSupported s v =
     (v \<in> set (supportedVersions s) \<and> (\<forall>u \<in> set (supportedVersions s). u \<le> v))"

text \<open>The versions of the sample store.\<close>

definition sampleVersions :: StoreVersions where
  "sampleVersions = \<lparr>someVersion = 1, otherVersions = [3]\<rparr>"

section \<open>Properties\<close>

subsection \<open>The record of remote calls\<close>

lemma issued_self: "issued r r = []"
  by (simp add: issued_def)

lemma issued_Get:
  "GetIamPolicy_Do e b v ctx r = (res, r') \<Longrightarrow> issued r r' = [GetCall b v ctx res]"
  by (auto simp: issued_def GetIamPolicy_Do_def split: prod.splits)

lemma issued_Get_Set:
  "GetIamPolicy_Do e b v ctx r = (res, r') \<Longrightarrow>
   SetIamPolicy_Do e b' p ctx' r' = (res', r'') \<Longrightarrow>
   issued r r'' = [GetCall b v ctx res, SetCall b' p ctx' res']"
  by (auto simp: issued_def GetIamPolicy_Do_def SetIamPolicy_Do_def split: prod.splits)

subsection \<open>The branches of each verb\<close>

lemma Observe_not_member:
  "Observe pkg e ctx NotBucketPolicyMember r
     = ((zeroObservation, Some (New errNotBucketPolicyMember)), NotBucketPolicyMember, r)"
  by (simp add: Observe_def)

lemma Observe_fetch_failed:
  "GetIamPolicy_Do e (bucketName pkg cr) (PolicyVersion pkg) ctx r = (Inl err, r') \<Longrightarrow>
   Observe pkg e ctx (IsBucketPolicyMember cr) r
     = ((zeroObservation, Some (Wrap err (errGetPolicy pkg))), IsBucketPolicyMember cr, r')"
  by (simp add: Observe_def)

lemma Observe_up_to_date:
  "GetIamPolicy_Do e (bucketName pkg cr) (PolicyVersion pkg) ctx r = (Inr policy, r') \<Longrightarrow>
   \<not> fst (BindRoleToMember pkg (ForProvider cr) policy) \<Longrightarrow>
   Observe pkg e ctx (IsBucketPolicyMember cr) r
     = ((\<lparr>ResourceExists = True, ResourceUpToDate = True\<rparr>, None),
        IsBucketPolicyMember (cr\<lparr>Status := SetConditionsAvailable pkg (Status cr)\<rparr>), r')"
  by (simp add: Observe_def case_prod_beta)

lemma Observe_drifted:
  "GetIamPolicy_Do e (bucketName pkg cr) (PolicyVersion pkg) ctx r = (Inr policy, r') \<Longrightarrow>
   fst (BindRoleToMember pkg (ForProvider cr) policy) \<Longrightarrow>
   Observe pkg e ctx (IsBucketPolicyMember cr) r
     = ((zeroObservation, None), IsBucketPolicyMember cr, r')"
  by (simp add: Observe_def case_prod_beta)

lemma Create_not_member:
  "Create pkg e ctx NotBucketPolicyMember r
     = ((ExternalCreation, Some (New errNotBucketPolicyMember)), NotBucketPolicyMember, r)"
  by (simp add: Create_def)

lemma Create_fetch_failed:
  "GetIamPolicy_Do e (bucketName pkg cr) (PolicyVersion pkg) ctx r = (Inl err, r') \<Longrightarrow>
   Create pkg e ctx (IsBucketPolicyMember cr) r
     = ((ExternalCreation, Some (Wrap err (errGetPolicy pkg))), IsBucketPolicyMember cr, r')"
  by (simp add: Create_def)

lemma Create_present:
  "GetIamPolicy_Do e (bucketName pkg cr) (PolicyVersion pkg) ctx r = (Inr policy, r') \<Longrightarrow>
   \<not> fst (BindRoleToMember pkg (ForProvider cr) policy) \<Longrightarrow>
   Create pkg e ctx (IsBucketPolicyMember cr) r
     = ((ExternalCreation, None), IsBucketPolicyMember cr, r')"
  by (simp add: Create_def case_prod_beta)

lemma Create_write_failed:
  "GetIamPolicy_Do e (bucketName pkg cr) (PolicyVersion pkg) ctx r = (Inr policy, r') \<Longrightarrow>
   fst (BindRoleToMember pkg (ForProvider cr) policy) \<Longrightarrow>
   SetIamPolicy_Do e (bucketName pkg cr) (snd (BindRoleToMember pkg (ForProvider cr) policy))
      ctx r' = (Inl err, r'') \<Longrightarrow>
   Create pkg e ctx (IsBucketPolicyMember cr) r
     = ((ExternalCreation, Some (Wrap err (errSetPolicy pkg))), IsBucketPolicyMember cr, r'')"
  by (simp add: Create_def case_prod_beta)

lemma Create_written:
  "GetIamPolicy_Do e (bucketName pkg cr) (PolicyVersion pkg) ctx r = (Inr policy, r') \<Longrightarrow>
   fst (BindRoleToMember pkg (ForProvider cr) policy) \<Longrightarrow>
   SetIamPolicy_Do e (bucketName pkg cr) (snd (BindRoleToMember pkg (ForProvider cr) policy))
      ctx r' = (Inr written, r'') \<Longrightarrow>
   Create pkg e ctx (IsBucketPolicyMember cr) r
     = ((ExternalCreation, None), IsBucketPolicyMember cr, r'')"
  by (simp add: Create_def case_prod_beta)

lemma Update_Create:
  "Update pkg e ctx mg r
     = ((ExternalUpdate, snd (fst (Create pkg e ctx mg r))), snd (Create pkg e ctx mg r))"
  by (simp add: Update_def split: prod.splits)

lemma Delete_not_member:
  "Delete pkg e ctx NotBucketPolicyMember r
     = (Some (New errNotBucketPolicyMember), NotBucketPolicyMember, r)"
  by (simp add: Delete_def)

lemma Delete_fetch_failed:
  "GetIamPolicy_Do e (bucketName pkg cr) (PolicyVersion pkg) ctx r = (Inl err, r') \<Longrightarrow>
   Delete pkg e ctx (IsBucketPolicyMember cr) r
     = (Some (Wrap err (errGetPolicy pkg)), IsBucketPolicyMember cr, r')"
  by (simp add: Delete_def)

lemma Delete_absent:
  "GetIamPolicy_Do e (bucketName pkg cr) (PolicyVersion pkg) ctx r = (Inr policy, r') \<Longrightarrow>
   \<not> fst (UnbindRoleFromMember pkg (ForProvider cr) policy) \<Longrightarrow>
   Delete pkg e ctx (IsBucketPolicyMember cr) r = (None, IsBucketPolicyMember cr, r')"
  by (simp add: Delete_def case_prod_beta)

lemma Delete_write_failed:
  "GetIamPolicy_Do e (bucketName pkg cr) (PolicyVersion pkg) ctx r = (Inr policy, r') \<Longrightarrow>
   fst (UnbindRoleFromMember pkg (ForProvider cr) policy) \<Longrightarrow>
   SetIamPolicy_Do e (bucketName pkg cr)
      (snd (UnbindRoleFromMember pkg (ForProvider cr) policy)) ctx r' = (Inl err, r'') \<Longrightarrow>
   Delete pkg e ctx (IsBucketPolicyMember cr) r
     = (Some (Wrap err (errSetPolicy pkg)), IsBucketPolicyMember cr, r'')"
  by (simp add: Delete_def case_prod_beta)

lemma Delete_written:
  "GetIamPolicy_Do e (bucketName pkg cr) (PolicyVersion pkg) ctx r = (Inr policy, r') \<Longrightarrow>
   fst (UnbindRoleFromMember pkg (ForProvider cr) policy) \<Longrightarrow>
   SetIamPolicy_Do e (bucketName pkg cr)
      (snd (UnbindRoleFromMember pkg (ForProvider cr) policy)) ctx r' = (Inr written, r'') \<Longrightarrow>
   Delete pkg e ctx (IsBucketPolicyMember cr) r = (None, IsBucketPolicyMember cr, r'')"
  by (simp add: Delete_def case_prod_beta)

subsection \<open>The calls each verb issues\<close>

lemma Observe_issued:
  "\<exists>res. issued r (snd (snd (Observe pkg e ctx (IsBucketPolicyMember cr) r)))
       = [GetCall (bucketName pkg cr) (PolicyVersion pkg) ctx res]"
proof -
  obtain res r' where
    fetch: "GetIamPolicy_Do e (bucketName pkg cr) (PolicyVersion pkg) ctx r = (res, r')"
    by (cases "GetIamPolicy_Do e (bucketName pkg cr) (PolicyVersion pkg) ctx r")
  show ?thesis
  proof (cases res)
    case (Inl err)
    with fetch show ?thesis
      by (simp add: Observe_fetch_failed issued_Get)
  next
    case (Inr policy)
    with fetch show ?thesis
      by (cases "fst (BindRoleToMember pkg (ForProvider cr) policy)")
         (simp_all add: Observe_up_to_date Observe_drifted issued_Get)
  qed
qed

lemma Create_issued:
  "(\<exists>res. issued r (snd (snd (Create pkg e ctx (IsBucketPolicyMember cr) r)))
       = [GetCall (bucketName pkg cr) (PolicyVersion pkg) ctx res])
   \<or> (\<exists>d res. issued r (snd (snd (Create pkg e ctx (IsBucketPolicyMember cr) r)))
       = [GetCall (bucketName pkg cr) (PolicyVersion pkg) ctx (Inr d),
          SetCall (bucketName pkg cr) (snd (BindRoleToMember pkg (ForProvider cr) d)) ctx res])"
proof -
  obtain res r' where
    fetch: "GetIamPolicy_Do e (bucketName pkg cr) (PolicyVersion pkg) ctx r = (res, r')"
    by (cases "GetIamPolicy_Do e (bucketName pkg cr) (PolicyVersion pkg) ctx r")
  show ?thesis
  proof (cases res)
    case (Inl err)
    with fetch show ?thesis
      by (simp add: Create_fetch_failed issued_Get)
  next
    case (Inr policy)
    note fetched = fetch [unfolded Inr]
    show ?thesis
    proof (cases "fst (BindRoleToMember pkg (ForProvider cr) policy)")
      case False
      with fetched show ?thesis
        by (simp add: Create_present issued_Get)
    next
      case True
      obtain res' r'' where
        sent: "SetIamPolicy_Do e (bucketName pkg cr)
                  (snd (BindRoleToMember pkg (ForProvider cr) policy)) ctx r' = (res', r'')"
        by (cases "SetIamPolicy_Do e (bucketName pkg cr)
                  (snd (BindRoleToMember pkg (ForProvider cr) policy)) ctx r'")
      from fetched True sent show ?thesis
        by (cases res') (simp_all add: Create_write_failed Create_written issued_Get_Set)
    qed
  qed
qed

lemma Delete_issued:
  "(\<exists>res. issued r (snd (snd (Delete pkg e ctx (IsBucketPolicyMember cr) r)))
       = [GetCall (bucketName pkg cr) (PolicyVersion pkg) ctx res])
   \<or> (\<exists>d res. issued r (snd (snd (Delete pkg e ctx (IsBucketPolicyMember cr) r)))
       = [GetCall (bucketName pkg cr) (PolicyVersion pkg) ctx (Inr d),
          SetCall (bucketName pkg cr) (snd (UnbindRoleFromMember pkg (ForProvider cr) d)) ctx res])"
proof -
  obtain res r' where
    fetch: "GetIamPolicy_Do e (bucketName pkg cr) (PolicyVersion pkg) ctx r = (res, r')"
    by (cases "GetIamPolicy_Do e (bucketName pkg cr) (PolicyVersion pkg) ctx r")
  show ?thesis
  proof (cases res)
    case (Inl err)
    with fetch show ?thesis
      by (simp add: Delete_fetch_failed issued_Get)
  next
    case (Inr policy)
    note fetched = fetch [unfolded Inr]
    show ?thesis
    proof (cases "fst (UnbindRoleFromMember pkg (ForProvider cr) policy)")
      case False
      with fetched show ?thesis
        by (simp add: Delete_absent issued_Get)
    next
      case True
      obtain res' r'' where
        sent: "SetIamPolicy_Do e (bucketName pkg cr)
                  (snd (UnbindRoleFromMember pkg (ForProvider cr) policy)) ctx r' = (res', r'')"
        by (cases "SetIamPolicy_Do e (bucketName pkg cr)
                  (snd (UnbindRoleFromMember pkg (ForProvider cr) policy)) ctx r'")
      from fetched True sent show ?thesis
        by (cases res') (simp_all add: Delete_write_failed Delete_written issued_Get_Set)
    qed
  qed
qed

subsection \<open>The resolver of the specification\<close>

lemma ensurePresent_changed:
  "fst (ensurePresent b d)
     = (case bindings d (Role b) of None \<Rightarrow> True | Some ms \<Rightarrow> Member b \<notin> ms)"
  by (simp add: ensurePresent_def split: option.splits)

lemma ensureAbsent_changed:
  "fst (ensureAbsent b d)
     = (case bindings d (Role b) of None \<Rightarrow> False | Some ms \<Rightarrow> Member b \<in> ms)"
  by (simp add: ensureAbsent_def split: option.splits)

lemma ensurePresent_keepsToken: "keepsToken ensurePresent"
  by (simp add: keepsToken_def ensurePresent_def split: option.splits)

lemma ensureAbsent_keepsToken: "keepsToken ensureAbsent"
  by (simp add: keepsToken_def ensureAbsent_def split: option.splits)

lemma scenario_A:
  "ensurePresent \<lparr>Bucket = None, Role = ''viewer'', Member = ''user:a''\<rparr>
      \<lparr>etag = t, bindings = Map.empty\<rparr>
     = (True, \<lparr>etag = t, bindings = [''viewer'' \<mapsto> {''user:a''}]\<rparr>)"
  by (simp add: ensurePresent_def)

lemma scenario_B:
  "ensureAbsent \<lparr>Bucket = None, Role = ''viewer'', Member = ''user:a''\<rparr>
      \<lparr>etag = t, bindings = [''viewer'' \<mapsto> {''user:a'', ''user:b''}]\<rparr>
     = (True, \<lparr>etag = t, bindings = [''viewer'' \<mapsto> {''user:b''}]\<rparr>)"
  by (auto simp: ensureAbsent_def)

lemma scenario_C:
  "ensureAbsent \<lparr>Bucket = None, Role = ''viewer'', Member = ''user:a''\<rparr>
      \<lparr>etag = t, bindings = [''viewer'' \<mapsto> {''user:a''}]\<rparr>
     = (True, \<lparr>etag = t, bindings = Map.empty\<rparr>)"
  by (simp add: ensureAbsent_def)

text \<open>
  C8. For every policy document \<open>d\<close> and binding \<open>b\<close>, applying \<open>ensurePresent\<close> a
  second time to the document produced by \<open>ensurePresent\<close> returns that same document
  with \<open>changed = false\<close>; and a second \<open>ensureAbsent\<close> after \<open>ensureAbsent\<close> returns the
  same document with \<open>changed = false\<close>.
\<close>

theorem resolver_idempotent:
  "ensurePresent b (snd (ensurePresent b d)) = (False, snd (ensurePresent b d))
   \<and> ensureAbsent b (snd (ensureAbsent b d)) = (False, snd (ensureAbsent b d))"
  by (auto simp: ensurePresent_def ensureAbsent_def split: option.splits)

subsection \<open>Running the verbs on the sample store\<close>

lemmas sample_defs =
  samplePkg_def memStore_def contendedStore_def viewerA_def docEmpty_def docViewerA_def
  startAt_def noBucket_def oneBucket_def GetIamPolicy_Do_def SetIamPolicy_Do_def
  ensurePresent_def ensureAbsent_def issued_def

lemmas verb_defs = Observe_def Create_def Update_def Delete_def zeroObservation_def

subsection \<open>Observe\<close>

text \<open>
  C1. For a managed resource that is a BucketPolicyMember, when the policy fetch
  succeeds, \<open>Observe\<close> returns \<open>{ResourceExists: true, ResourceUpToDate: true}\<close> with
  a nil error exactly when the resolver reports \<open>changed = false\<close> (the desired pair is
  already in the fetched document); otherwise it returns an observation with
  \<open>ResourceExists\<close> false and a nil error. On no path, for no managed resource, does
  \<open>Observe\<close> issue a \<open>SetIamPolicy\<close> call.
\<close>

theorem Observe_reports:
  "(GetIamPolicy_Do e (bucketName pkg cr) (PolicyVersion pkg) ctx r = (Inr policy, r') \<longrightarrow>
      ((fst (Observe pkg e ctx (IsBucketPolicyMember cr) r)
          = (\<lparr>ResourceExists = True, ResourceUpToDate = True\<rparr>, None))
        = (\<not> fst (BindRoleToMember pkg (ForProvider cr) policy)))
      \<and> (fst (BindRoleToMember pkg (ForProvider cr) policy) \<longrightarrow>
           fst (Observe pkg e ctx (IsBucketPolicyMember cr) r)
             = (\<lparr>ResourceExists = False, ResourceUpToDate = False\<rparr>, None)))
   \<and> filter isSetCall (issued r (snd (snd (Observe pkg e ctx mg r)))) = []"
proof -
  have reports:
    "(fst (Observe pkg e ctx (IsBucketPolicyMember cr) r)
          = (\<lparr>ResourceExists = True, ResourceUpToDate = True\<rparr>, None))
        = (\<not> fst (BindRoleToMember pkg (ForProvider cr) policy))
      \<and> (fst (BindRoleToMember pkg (ForProvider cr) policy) \<longrightarrow>
           fst (Observe pkg e ctx (IsBucketPolicyMember cr) r)
             = (\<lparr>ResourceExists = False, ResourceUpToDate = False\<rparr>, None))"
    if "GetIamPolicy_Do e (bucketName pkg cr) (PolicyVersion pkg) ctx r = (Inr policy, r')"
    using that
    by (cases "fst (BindRoleToMember pkg (ForProvider cr) policy)")
       (simp_all add: Observe_up_to_date Observe_drifted zeroObservation_def)
  have no_write: "filter isSetCall (issued r (snd (snd (Observe pkg e ctx mg r)))) = []"
  proof (cases mg)
    case NotBucketPolicyMember
    then show ?thesis
      by (simp add: Observe_not_member issued_self)
  next
    case (IsBucketPolicyMember cr')
    from Observe_issued [of r pkg e ctx cr'] obtain res where
      "issued r (snd (snd (Observe pkg e ctx (IsBucketPolicyMember cr') r)))
         = [GetCall (bucketName pkg cr') (PolicyVersion pkg) ctx res]" ..
    with IsBucketPolicyMember show ?thesis
      by simp
  qed
  from reports no_write show ?thesis
    by blast
qed

theorem Observe_reports_witness:
  "GetIamPolicy_Do memStore (bucketName samplePkg viewerA) (PolicyVersion samplePkg) ()
      (startAt (oneBucket docViewerA))
     = (Inr docViewerA,
        \<lparr>calls = [GetCall ''b'' 3 () (Inr docViewerA)], world = oneBucket docViewerA\<rparr>)
   \<and> \<not> fst (BindRoleToMember samplePkg (ForProvider viewerA) docViewerA)
   \<and> fst (Observe samplePkg memStore () (IsBucketPolicyMember viewerA)
            (startAt (oneBucket docViewerA)))
       = (\<lparr>ResourceExists = True, ResourceUpToDate = True\<rparr>, None)
   \<and> GetIamPolicy_Do memStore (bucketName samplePkg viewerA) (PolicyVersion samplePkg) ()
      (startAt (oneBucket docEmpty))
     = (Inr docEmpty,
        \<lparr>calls = [GetCall ''b'' 3 () (Inr docEmpty)], world = oneBucket docEmpty\<rparr>)
   \<and> fst (BindRoleToMember samplePkg (ForProvider viewerA) docEmpty)
   \<and> fst (Observe samplePkg memStore () (IsBucketPolicyMember viewerA)
            (startAt (oneBucket docEmpty)))
       = (\<lparr>ResourceExists = False, ResourceUpToDate = False\<rparr>, None)"
proof -
  have fetchA:
    "GetIamPolicy_Do memStore (bucketName samplePkg viewerA) (PolicyVersion samplePkg) ()
      (startAt (oneBucket docViewerA))
     = (Inr docViewerA,
        \<lparr>calls = [GetCall ''b'' 3 () (Inr docViewerA)], world = oneBucket docViewerA\<rparr>)"
    by (simp add: sample_defs)
  have fetchE:
    "GetIamPolicy_Do memStore (bucketName samplePkg viewerA) (PolicyVersion samplePkg) ()
      (startAt (oneBucket docEmpty))
     = (Inr docEmpty,
        \<lparr>calls = [GetCall ''b'' 3 () (Inr docEmpty)], world = oneBucket docEmpty\<rparr>)"
    by (simp add: sample_defs)
  have present: "\<not> fst (BindRoleToMember samplePkg (ForProvider viewerA) docViewerA)"
    by (simp add: sample_defs)
  have missing: "fst (BindRoleToMember samplePkg (ForProvider viewerA) docEmpty)"
    by (simp add: sample_defs)
  note up_to_date = Observe_reports [where e = memStore and pkg = samplePkg and cr = viewerA
      and ctx = "()" and r = "startAt (oneBucket docViewerA)" and policy = docViewerA
      and r' = "\<lparr>calls = [GetCall ''b'' 3 () (Inr docViewerA)], world = oneBucket docViewerA\<rparr>"
      and mg = NotBucketPolicyMember]
  note drifted = Observe_reports [where e = memStore and pkg = samplePkg and cr = viewerA
      and ctx = "()" and r = "startAt (oneBucket docEmpty)" and policy = docEmpty
      and r' = "\<lparr>calls = [GetCall ''b'' 3 () (Inr docEmpty)], world = oneBucket docEmpty\<rparr>"
      and mg = NotBucketPolicyMember]
  from up_to_date drifted fetchA fetchE present missing show ?thesis
    by simp
qed

subsection \<open>Create\<close>

text \<open>
  C2. When the resolver reports \<open>changed = false\<close> on the freshly fetched document (the
  desired pair is already present), \<open>Create\<close> returns a nil error and issues no
  \<open>SetIamPolicy\<close> call: the fetch is the only remote call, and the remote is left as the
  fetch left it.
\<close>

theorem Create_noop_when_present:
  assumes "GetIamPolicy_Do e (bucketName pkg cr) (PolicyVersion pkg) ctx r = (Inr policy, r')"
      and "\<not> fst (BindRoleToMember pkg (ForProvider cr) policy)"
  shows "snd (fst (Create pkg e ctx (IsBucketPolicyMember cr) r)) = None
     \<and> filter isSetCall (issued r (snd (snd (Create pkg e ctx (IsBucketPolicyMember cr) r)))) = []
     \<and> issued r (snd (snd (Create pkg e ctx (IsBucketPolicyMember cr) r)))
         = [GetCall (bucketName pkg cr) (PolicyVersion pkg) ctx (Inr policy)]
     \<and> world (snd (snd (Create pkg e ctx (IsBucketPolicyMember cr) r)))
         = snd (GetIamPolicy e (bucketName pkg cr) (PolicyVersion pkg) ctx (world r))"
proof -
  from assms have "Create pkg e ctx (IsBucketPolicyMember cr) r
     = ((ExternalCreation, None), IsBucketPolicyMember cr, r')"
    by (rule Create_present)
  moreover from assms(1) have "issued r r'
     = [GetCall (bucketName pkg cr) (PolicyVersion pkg) ctx (Inr policy)]"
    by (rule issued_Get)
  moreover from assms(1) have
    "world r' = snd (GetIamPolicy e (bucketName pkg cr) (PolicyVersion pkg) ctx (world r))"
    by (auto simp: GetIamPolicy_Do_def split: prod.splits)
  ultimately show ?thesis
    by simp
qed

theorem Create_noop_when_present_witness:
  "GetIamPolicy_Do memStore (bucketName samplePkg viewerA) (PolicyVersion samplePkg) ()
      (startAt (oneBucket docViewerA))
     = (Inr docViewerA,
        \<lparr>calls = [GetCall ''b'' 3 () (Inr docViewerA)], world = oneBucket docViewerA\<rparr>)
   \<and> \<not> fst (BindRoleToMember samplePkg (ForProvider viewerA) docViewerA)
   \<and> snd (fst (Create samplePkg memStore () (IsBucketPolicyMember viewerA)
        (startAt (oneBucket docViewerA)))) = None
   \<and> issued (startAt (oneBucket docViewerA))
        (snd (snd (Create samplePkg memStore () (IsBucketPolicyMember viewerA)
           (startAt (oneBucket docViewerA)))))
       = [GetCall ''b'' 3 () (Inr docViewerA)]
   \<and> world (snd (snd (Create samplePkg memStore () (IsBucketPolicyMember viewerA)
           (startAt (oneBucket docViewerA)))))
       = oneBucket docViewerA"
proof -
  have fetch:
    "GetIamPolicy_Do memStore (bucketName samplePkg viewerA) (PolicyVersion samplePkg) ()
      (startAt (oneBucket docViewerA))
     = (Inr docViewerA,
        \<lparr>calls = [GetCall ''b'' 3 () (Inr docViewerA)], world = oneBucket docViewerA\<rparr>)"
    by (simp add: sample_defs)
  have present: "\<not> fst (BindRoleToMember samplePkg (ForProvider viewerA) docViewerA)"
    by (simp add: sample_defs)
  have names: "bucketName samplePkg viewerA = ''b''" "PolicyVersion samplePkg = 3"
    by (simp_all add: samplePkg_def viewerA_def)
  have left: "snd (GetIamPolicy memStore ''b'' 3 () (world (startAt (oneBucket docViewerA))))
     = oneBucket docViewerA"
    by (simp add: sample_defs)
  from Create_noop_when_present [OF fetch present] fetch present show ?thesis
    by (simp add: names left)
qed

subsection \<open>Delete\<close>

lemma SetIamPolicy_Do_answer:
  "SetIamPolicy_Do e b p ctx r = (res, s) \<Longrightarrow>
   res = fst (SetIamPolicy e b p ctx (world r))
   \<and> world s = snd (SetIamPolicy e b p ctx (world r))"
  by (auto simp: SetIamPolicy_Do_def split: prod.splits)

text \<open>
  C3. \<open>Delete\<close> on a BucketPolicyMember first fetches the policy document and computes
  the removal of the pair. If the resolver reports \<open>changed = false\<close> (the pair is not
  present) it returns nil, the fetch is the only call issued and the remote is as the
  fetch left it. If the pair is present it issues, after the fetch, exactly one
  \<open>SetIamPolicy\<close> carrying the mutated document: the remote after \<open>Delete\<close> is the
  remote that this call of the client leaves, and \<open>Delete\<close> returns nil when the write
  succeeds and the write's error, wrapped, when it fails.
\<close>

theorem Delete_fetch_then_write_once:
  "(\<exists>res rest. issued r (snd (snd (Delete pkg e ctx (IsBucketPolicyMember cr) r)))
        = GetCall (bucketName pkg cr) (PolicyVersion pkg) ctx res # rest)
   \<and> (GetIamPolicy_Do e (bucketName pkg cr) (PolicyVersion pkg) ctx r = (Inr policy, r') \<longrightarrow>
        (\<not> fst (UnbindRoleFromMember pkg (ForProvider cr) policy) \<longrightarrow>
           Delete pkg e ctx (IsBucketPolicyMember cr) r = (None, IsBucketPolicyMember cr, r')
           \<and> issued r (snd (snd (Delete pkg e ctx (IsBucketPolicyMember cr) r)))
               = [GetCall (bucketName pkg cr) (PolicyVersion pkg) ctx (Inr policy)])
        \<and> (fst (UnbindRoleFromMember pkg (ForProvider cr) policy) \<longrightarrow>
           snd (snd (Delete pkg e ctx (IsBucketPolicyMember cr) r))
             = snd (SetIamPolicy_Do e (bucketName pkg cr)
                      (snd (UnbindRoleFromMember pkg (ForProvider cr) policy)) ctx r')
           \<and> world (snd (snd (Delete pkg e ctx (IsBucketPolicyMember cr) r)))
             = snd (SetIamPolicy e (bucketName pkg cr)
                      (snd (UnbindRoleFromMember pkg (ForProvider cr) policy)) ctx (world r'))
           \<and> issued r (snd (snd (Delete pkg e ctx (IsBucketPolicyMember cr) r)))
               = [GetCall (bucketName pkg cr) (PolicyVersion pkg) ctx (Inr policy),
                  SetCall (bucketName pkg cr)
                    (snd (UnbindRoleFromMember pkg (ForProvider cr) policy)) ctx
                    (fst (SetIamPolicy e (bucketName pkg cr)
                      (snd (UnbindRoleFromMember pkg (ForProvider cr) policy)) ctx (world r')))]
           \<and> fst (Delete pkg e ctx (IsBucketPolicyMember cr) r)
               = (case fst (SetIamPolicy e (bucketName pkg cr)
                      (snd (UnbindRoleFromMember pkg (ForProvider cr) policy)) ctx (world r')) of
                    Inl err \<Rightarrow> Some (Wrap err (errSetPolicy pkg))
                  | Inr written \<Rightarrow> None)
           \<and> (\<forall>written r''.
                 SetIamPolicy_Do e (bucketName pkg cr)
                    (snd (UnbindRoleFromMember pkg (ForProvider cr) policy)) ctx r'
                   = (Inr written, r'') \<longrightarrow>
                 fst (Delete pkg e ctx (IsBucketPolicyMember cr) r) = None)))"
proof -
  let ?b = "bucketName pkg cr"
  let ?p = "snd (UnbindRoleFromMember pkg (ForProvider cr) policy)"
  let ?D = "Delete pkg e ctx (IsBucketPolicyMember cr) r"
  have first: "\<exists>res rest. issued r (snd (snd ?D)) = GetCall ?b (PolicyVersion pkg) ctx res # rest"
    using Delete_issued [of r pkg e ctx cr] by auto
  have absent:
    "?D = (None, IsBucketPolicyMember cr, r')
     \<and> issued r (snd (snd ?D)) = [GetCall ?b (PolicyVersion pkg) ctx (Inr policy)]"
    if "GetIamPolicy_Do e ?b (PolicyVersion pkg) ctx r = (Inr policy, r')"
      and "\<not> fst (UnbindRoleFromMember pkg (ForProvider cr) policy)"
    using that by (simp add: Delete_absent issued_Get)
  have present:
    "snd (snd ?D) = snd (SetIamPolicy_Do e ?b ?p ctx r')
     \<and> world (snd (snd ?D)) = snd (SetIamPolicy e ?b ?p ctx (world r'))
     \<and> issued r (snd (snd ?D))
         = [GetCall ?b (PolicyVersion pkg) ctx (Inr policy),
            SetCall ?b ?p ctx (fst (SetIamPolicy e ?b ?p ctx (world r')))]
     \<and> fst ?D
         = (case fst (SetIamPolicy e ?b ?p ctx (world r')) of
              Inl err \<Rightarrow> Some (Wrap err (errSetPolicy pkg))
            | Inr written \<Rightarrow> None)"
    if fetched: "GetIamPolicy_Do e ?b (PolicyVersion pkg) ctx r = (Inr policy, r')"
      and changed: "fst (UnbindRoleFromMember pkg (ForProvider cr) policy)"
  proof -
    obtain res s where sent: "SetIamPolicy_Do e ?b ?p ctx r' = (res, s)"
      by (cases "SetIamPolicy_Do e ?b ?p ctx r'")
    note answer = SetIamPolicy_Do_answer [OF sent]
    from fetched sent have trace:
      "issued r s = [GetCall ?b (PolicyVersion pkg) ctx (Inr policy), SetCall ?b ?p ctx res]"
      by (rule issued_Get_Set)
    from fetched changed sent have
      "?D = ((case res of Inl err \<Rightarrow> Some (Wrap err (errSetPolicy pkg)) | Inr written \<Rightarrow> None),
             IsBucketPolicyMember cr, s)"
      by (cases res) (simp_all add: Delete_write_failed Delete_written)
    with sent answer trace show ?thesis
      by simp
  qed
  have success:
    "fst ?D = None"
    if "GetIamPolicy_Do e ?b (PolicyVersion pkg) ctx r = (Inr policy, r')"
      and "fst (UnbindRoleFromMember pkg (ForProvider cr) policy)"
      and "SetIamPolicy_Do e ?b ?p ctx r' = (Inr written, r'')"
    for written r''
    using that by (simp add: Delete_written)
  from first absent present success show ?thesis
    by blast
qed

theorem Delete_fetch_then_write_once_witness:
  "GetIamPolicy_Do memStore (bucketName samplePkg viewerA) (PolicyVersion samplePkg) ()
      (startAt (oneBucket docEmpty))
     = (Inr docEmpty,
        \<lparr>calls = [GetCall ''b'' 3 () (Inr docEmpty)], world = oneBucket docEmpty\<rparr>)
   \<and> \<not> fst (UnbindRoleFromMember samplePkg (ForProvider viewerA) docEmpty)
   \<and> Delete samplePkg memStore () (IsBucketPolicyMember viewerA)
        (startAt (oneBucket docEmpty))
       = (None, IsBucketPolicyMember viewerA,
          \<lparr>calls = [GetCall ''b'' 3 () (Inr docEmpty)], world = oneBucket docEmpty\<rparr>)
   \<and> GetIamPolicy_Do memStore (bucketName samplePkg viewerA) (PolicyVersion samplePkg) ()
      (startAt (oneBucket docViewerA))
     = (Inr docViewerA,
        \<lparr>calls = [GetCall ''b'' 3 () (Inr docViewerA)], world = oneBucket docViewerA\<rparr>)
   \<and> fst (UnbindRoleFromMember samplePkg (ForProvider viewerA) docViewerA)
   \<and> SetIamPolicy_Do memStore (bucketName samplePkg viewerA)
        (snd (UnbindRoleFromMember samplePkg (ForProvider viewerA) docViewerA)) ()
        \<lparr>calls = [GetCall ''b'' 3 () (Inr docViewerA)], world = oneBucket docViewerA\<rparr>
     = (Inr docEmpty,
        \<lparr>calls = [GetCall ''b'' 3 () (Inr docViewerA), SetCall ''b'' docEmpty () (Inr docEmpty)],
         world = oneBucket docEmpty\<rparr>)
   \<and> fst (Delete samplePkg memStore () (IsBucketPolicyMember viewerA)
            (startAt (oneBucket docViewerA))) = None
   \<and> snd (snd (Delete samplePkg memStore () (IsBucketPolicyMember viewerA)
            (startAt (oneBucket docViewerA))))
       = \<lparr>calls = [GetCall ''b'' 3 () (Inr docViewerA), SetCall ''b'' docEmpty () (Inr docEmpty)],
          world = oneBucket docEmpty\<rparr>"
proof -
  have fetchE:
    "GetIamPolicy_Do memStore (bucketName samplePkg viewerA) (PolicyVersion samplePkg) ()
      (startAt (oneBucket docEmpty))
     = (Inr docEmpty,
        \<lparr>calls = [GetCall ''b'' 3 () (Inr docEmpty)], world = oneBucket docEmpty\<rparr>)"
    by (simp add: sample_defs)
  have fetchA:
    "GetIamPolicy_Do memStore (bucketName samplePkg viewerA) (PolicyVersion samplePkg) ()
      (startAt (oneBucket docViewerA))
     = (Inr docViewerA,
        \<lparr>calls = [GetCall ''b'' 3 () (Inr docViewerA)], world = oneBucket docViewerA\<rparr>)"
    by (simp add: sample_defs)
  have absent: "\<not> fst (UnbindRoleFromMember samplePkg (ForProvider viewerA) docEmpty)"
    by (simp add: sample_defs)
  have present: "fst (UnbindRoleFromMember samplePkg (ForProvider viewerA) docViewerA)"
    by (simp add: sample_defs)
  have sent:
    "SetIamPolicy_Do memStore (bucketName samplePkg viewerA)
        (snd (UnbindRoleFromMember samplePkg (ForProvider viewerA) docViewerA)) ()
        \<lparr>calls = [GetCall ''b'' 3 () (Inr docViewerA)], world = oneBucket docViewerA\<rparr>
     = (Inr docEmpty,
        \<lparr>calls = [GetCall ''b'' 3 () (Inr docViewerA), SetCall ''b'' docEmpty () (Inr docEmpty)],
         world = oneBucket docEmpty\<rparr>)"
    by (simp add: sample_defs)
  note noop = Delete_fetch_then_write_once [where e = memStore and pkg = samplePkg
      and cr = viewerA and ctx = "()" and r = "startAt (oneBucket docEmpty)"
      and policy = docEmpty
      and r' = "\<lparr>calls = [GetCall ''b'' 3 () (Inr docEmpty)], world = oneBucket docEmpty\<rparr>"]
  note removal = Delete_fetch_then_write_once [where e = memStore and pkg = samplePkg
      and cr = viewerA and ctx = "()" and r = "startAt (oneBucket docViewerA)"
      and policy = docViewerA
      and r' = "\<lparr>calls = [GetCall ''b'' 3 () (Inr docViewerA)], world = oneBucket docViewerA\<rparr>"]
  from noop fetchE absent have
    "Delete samplePkg memStore () (IsBucketPolicyMember viewerA)
        (startAt (oneBucket docEmpty))
       = (None, IsBucketPolicyMember viewerA,
          \<lparr>calls = [GetCall ''b'' 3 () (Inr docEmpty)], world = oneBucket docEmpty\<rparr>)"
    by blast
  moreover from removal fetchA present sent have
    "fst (Delete samplePkg memStore () (IsBucketPolicyMember viewerA)
            (startAt (oneBucket docViewerA))) = None"
    by blast
  moreover from removal fetchA present have
    "snd (snd (Delete samplePkg memStore () (IsBucketPolicyMember viewerA)
            (startAt (oneBucket docViewerA))))
       = snd (SetIamPolicy_Do memStore (bucketName samplePkg viewerA)
        (snd (UnbindRoleFromMember samplePkg (ForProvider viewerA) docViewerA)) ()
        \<lparr>calls = [GetCall ''b'' 3 () (Inr docViewerA)], world = oneBucket docViewerA\<rparr>)"
    by blast
  ultimately show ?thesis
    using fetchE fetchA absent present sent by simp
qed

subsection \<open>Update\<close>

text \<open>
  C4. \<open>Update\<close> delegates to \<open>Create\<close>: for every context, managed resource and
  remote, it returns exactly the error \<open>Create\<close> returns, and leaves the managed
  resource and the remote (the calls issued and the remote state) exactly as \<open>Create\<close>
  leaves them.
\<close>

theorem Update_is_Create:
  "snd (fst (Update pkg e ctx mg r)) = snd (fst (Create pkg e ctx mg r))
   \<and> snd (Update pkg e ctx mg r) = snd (Create pkg e ctx mg r)"
  by (simp add: Update_Create)

subsection \<open>Every write follows a fetch of the same call\<close>

text \<open>
  C5. In every call of every verb, a \<open>SetIamPolicy\<close> is never issued without a
  \<open>GetIamPolicy\<close> issued before it in the same call, on the same bucket, and the
  document written is the document that fetch returned after the resolver has worked on
  it in local memory. It carries that fetch's version token, provided the resolvers leave
  the token alone (as the resolvers of the specification do). \<open>Observe\<close> issues the
  fetch only; a managed resource of another kind causes no call at all.
\<close>

theorem replace_only_after_fetch:
  assumes "keepsToken (BindRoleToMember pkg)" and "keepsToken (UnbindRoleFromMember pkg)"
  shows
  "(\<exists>res. issued r (snd (snd (Observe pkg e ctx (IsBucketPolicyMember cr) r)))
       = [GetCall (bucketName pkg cr) (PolicyVersion pkg) ctx res])
   \<and> ((\<exists>res. issued r (snd (snd (Create pkg e ctx (IsBucketPolicyMember cr) r)))
         = [GetCall (bucketName pkg cr) (PolicyVersion pkg) ctx res])
      \<or> (\<exists>d res. issued r (snd (snd (Create pkg e ctx (IsBucketPolicyMember cr) r)))
         = [GetCall (bucketName pkg cr) (PolicyVersion pkg) ctx (Inr d),
            SetCall (bucketName pkg cr) (snd (BindRoleToMember pkg (ForProvider cr) d)) ctx res]
         \<and> etag (snd (BindRoleToMember pkg (ForProvider cr) d)) = etag d))
   \<and> ((\<exists>res. issued r (snd (snd (Update pkg e ctx (IsBucketPolicyMember cr) r)))
         = [GetCall (bucketName pkg cr) (PolicyVersion pkg) ctx res])
      \<or> (\<exists>d res. issued r (snd (snd (Update pkg e ctx (IsBucketPolicyMember cr) r)))
         = [GetCall (bucketName pkg cr) (PolicyVersion pkg) ctx (Inr d),
            SetCall (bucketName pkg cr) (snd (BindRoleToMember pkg (ForProvider cr) d)) ctx res]
         \<and> etag (snd (BindRoleToMember pkg (ForProvider cr) d)) = etag d))
   \<and> ((\<exists>res. issued r (snd (snd (Delete pkg e ctx (IsBucketPolicyMember cr) r)))
         = [GetCall (bucketName pkg cr) (PolicyVersion pkg) ctx res])
      \<or> (\<exists>d res. issued r (snd (snd (Delete pkg e ctx (IsBucketPolicyMember cr) r)))
         = [GetCall (bucketName pkg cr) (PolicyVersion pkg) ctx (Inr d),
            SetCall (bucketName pkg cr) (snd (UnbindRoleFromMember pkg (ForProvider cr) d)) ctx res]
         \<and> etag (snd (UnbindRoleFromMember pkg (ForProvider cr) d)) = etag d))
   \<and> issued r (snd (snd (Observe pkg e ctx NotBucketPolicyMember r))) = []
   \<and> issued r (snd (snd (Create pkg e ctx NotBucketPolicyMember r))) = []
   \<and> issued r (snd (snd (Update pkg e ctx NotBucketPolicyMember r))) = []
   \<and> issued r (snd (snd (Delete pkg e ctx NotBucketPolicyMember r))) = []"
proof -
  from assms have token:
    "etag (snd (BindRoleToMember pkg p d)) = etag d"
    "etag (snd (UnbindRoleFromMember pkg p d)) = etag d" for p d
    by (simp_all add: keepsToken_def)
  note observe = Observe_issued [of r pkg e ctx cr]
  note create = Create_issued [of r pkg e ctx cr]
  note delete = Delete_issued [of r pkg e ctx cr]
  have other:
    "issued r (snd (snd (Observe pkg e ctx NotBucketPolicyMember r))) = []"
    "issued r (snd (snd (Create pkg e ctx NotBucketPolicyMember r))) = []"
    "issued r (snd (snd (Update pkg e ctx NotBucketPolicyMember r))) = []"
    "issued r (snd (snd (Delete pkg e ctx NotBucketPolicyMember r))) = []"
    by (simp_all add: Observe_not_member Create_not_member Update_Create Delete_not_member
        issued_self)
  from observe create delete other show ?thesis
    by (simp add: token Update_Create)
qed

theorem replace_only_after_fetch_witness:
  "keepsToken (BindRoleToMember samplePkg) \<and> keepsToken (UnbindRoleFromMember samplePkg)
   \<and> issued (startAt (oneBucket docEmpty))
        (snd (snd (Create samplePkg memStore () (IsBucketPolicyMember viewerA)
           (startAt (oneBucket docEmpty)))))
       = [GetCall ''b'' 3 () (Inr docEmpty), SetCall ''b'' docViewerA () (Inr docViewerA)]
   \<and> etag docViewerA = etag docEmpty"
proof -
  have bind: "keepsToken (BindRoleToMember samplePkg)"
    by (simp add: samplePkg_def ensurePresent_keepsToken)
  have unbind: "keepsToken (UnbindRoleFromMember samplePkg)"
    by (simp add: samplePkg_def ensureAbsent_keepsToken)
  have run: "issued (startAt (oneBucket docEmpty))
        (snd (snd (Create samplePkg memStore () (IsBucketPolicyMember viewerA)
           (startAt (oneBucket docEmpty)))))
       = [GetCall ''b'' 3 () (Inr docEmpty), SetCall ''b'' docViewerA () (Inr docViewerA)]"
    by (simp add: Create_def sample_defs)
  from replace_only_after_fetch [OF bind unbind, where e = memStore and cr = viewerA
      and ctx = "()" and r = "startAt (oneBucket docEmpty)"] bind unbind run
  show ?thesis
    by (simp add: docViewerA_def docEmpty_def)
qed

subsection \<open>Failures\<close>

text \<open>
  C6, as claimed, fails: on the sample store with no bucket the fetch fails with
  \<open>NotFound\<close>, and \<open>Observe\<close> hands a non-nil error back to the control loop.
\<close>

theorem Observe_NotFound_counterexample:
  "fst (GetIamPolicy_Do memStore (bucketName samplePkg viewerA) (PolicyVersion samplePkg) ()
          (startAt noBucket)) = Inl NotFound
   \<and> snd (fst (Observe samplePkg memStore () (IsBucketPolicyMember viewerA) (startAt noBucket)))
       = Some (Wrap NotFound ''cannot get policy'')"
  by (simp add: Observe_def sample_defs)

text \<open>
  C6, amended. When the policy fetch fails with \<open>NotFound\<close>, \<open>Observe\<close> treats it as
  any other fetch failure: it returns the zero observation (\<open>ResourceExists\<close> false,
  \<open>ResourceUpToDate\<close> false) together with a non-nil error, the \<open>NotFound\<close> error
  wrapped with \<open>errGetPolicy\<close>; the managed resource is left as it was and no further
  call is issued.
\<close>

theorem Observe_NotFound_is_error:
  "GetIamPolicy_Do e (bucketName pkg cr) (PolicyVersion pkg) ctx r = (Inl NotFound, r') \<Longrightarrow>
   Observe pkg e ctx (IsBucketPolicyMember cr) r
     = ((\<lparr>ResourceExists = False, ResourceUpToDate = False\<rparr>,
         Some (Wrap NotFound (errGetPolicy pkg))),
        IsBucketPolicyMember cr, r')"
  by (simp add: Observe_fetch_failed zeroObservation_def)

theorem Observe_NotFound_is_error_witness:
  "GetIamPolicy_Do memStore (bucketName samplePkg viewerA) (PolicyVersion samplePkg) ()
      (startAt noBucket)
     = (Inl NotFound, \<lparr>calls = [GetCall ''b'' 3 () (Inl NotFound)], world = noBucket\<rparr>)
   \<and> Observe samplePkg memStore () (IsBucketPolicyMember viewerA) (startAt noBucket)
     = ((\<lparr>ResourceExists = False, ResourceUpToDate = False\<rparr>,
         Some (Wrap NotFound ''cannot get policy'')),
        IsBucketPolicyMember viewerA,
        \<lparr>calls = [GetCall ''b'' 3 () (Inl NotFound)], world = noBucket\<rparr>)"
proof -
  have fetch:
    "GetIamPolicy_Do memStore (bucketName samplePkg viewerA) (PolicyVersion samplePkg) ()
      (startAt noBucket)
     = (Inl NotFound, \<lparr>calls = [GetCall ''b'' 3 () (Inl NotFound)], world = noBucket\<rparr>)"
    by (simp add: sample_defs)
  have message: "errGetPolicy samplePkg = ''cannot get policy''"
    by (simp add: samplePkg_def)
  from Observe_NotFound_is_error [OF fetch] fetch show ?thesis
    by (simp add: message)
qed

text \<open>
  C7, as claimed, fails: the observe-fetch, create-fetch and delete-fetch stages return
  the same wrapped error for the same underlying failure.
\<close>

theorem stages_counterexample:
  "snd (fst (Observe samplePkg memStore () (IsBucketPolicyMember viewerA) (startAt noBucket)))
     = Some (Wrap NotFound ''cannot get policy'')
   \<and> snd (fst (Create samplePkg memStore () (IsBucketPolicyMember viewerA) (startAt noBucket)))
     = Some (Wrap NotFound ''cannot get policy'')
   \<and> fst (Delete samplePkg memStore () (IsBucketPolicyMember viewerA) (startAt noBucket))
     = Some (Wrap NotFound ''cannot get policy'')"
  by (simp add: verb_defs sample_defs)

text \<open>
  C7, amended. Every fetch or replace failure is returned wrapped with a message that
  tells which kind of remote call failed, not which verb: a fetch failure is wrapped
  with \<open>errGetPolicy\<close> in \<open>Observe\<close>, \<open>Create\<close>, \<open>Update\<close> and \<open>Delete\<close> alike, a
  write failure with \<open>errSetPolicy\<close> in \<open>Create\<close>, \<open>Update\<close> and \<open>Delete\<close> alike.
  The same underlying error gives different wrapped errors at a fetch and at a write
  whenever the two messages differ. No failure is swallowed or retried: the verb ends
  with that error, and the remote is as the failed call left it.
\<close>

theorem failures_wrapped_by_call_kind:
  "(GetIamPolicy_Do e (bucketName pkg cr) (PolicyVersion pkg) ctx r = (Inl err, r') \<longrightarrow>
      Observe pkg e ctx (IsBucketPolicyMember cr) r
        = ((zeroObservation, Some (Wrap err (errGetPolicy pkg))), IsBucketPolicyMember cr, r')
      \<and> Create pkg e ctx (IsBucketPolicyMember cr) r
        = ((ExternalCreation, Some (Wrap err (errGetPolicy pkg))), IsBucketPolicyMember cr, r')
      \<and> Update pkg e ctx (IsBucketPolicyMember cr) r
        = ((ExternalUpdate, Some (Wrap err (errGetPolicy pkg))), IsBucketPolicyMember cr, r')
      \<and> Delete pkg e ctx (IsBucketPolicyMember cr) r
        = (Some (Wrap err (errGetPolicy pkg)), IsBucketPolicyMember cr, r'))
   \<and> (GetIamPolicy_Do e (bucketName pkg cr) (PolicyVersion pkg) ctx r = (Inr policy, r')
        \<and> fst (BindRoleToMember pkg (ForProvider cr) policy)
        \<and> SetIamPolicy_Do e (bucketName pkg cr)
             (snd (BindRoleToMember pkg (ForProvider cr) policy)) ctx r' = (Inl err, r'') \<longrightarrow>
      Create pkg e ctx (IsBucketPolicyMember cr) r
        = ((ExternalCreation, Some (Wrap err (errSetPolicy pkg))), IsBucketPolicyMember cr, r'')
      \<and> Update pkg e ctx (IsBucketPolicyMember cr) r
        = ((ExternalUpdate, Some (Wrap err (errSetPolicy pkg))), IsBucketPolicyMember cr, r''))
   \<and> (GetIamPolicy_Do e (bucketName pkg cr) (PolicyVersion pkg) ctx r = (Inr policy, r')
        \<and> fst (UnbindRoleFromMember pkg (ForProvider cr) policy)
        \<and> SetIamPolicy_Do e (bucketName pkg cr)
             (snd (UnbindRoleFromMember pkg (ForProvider cr) policy)) ctx r' = (Inl err, r'') \<longrightarrow>
      Delete pkg e ctx (IsBucketPolicyMember cr) r
        = (Some (Wrap err (errSetPolicy pkg)), IsBucketPolicyMember cr, r''))
   \<and> (errGetPolicy pkg \<noteq> errSetPolicy pkg \<longrightarrow>
        Wrap err (errGetPolicy pkg) \<noteq> Wrap err (errSetPolicy pkg))"
proof -
  have fetch_stage:
    "Observe pkg e ctx (IsBucketPolicyMember cr) r
        = ((zeroObservation, Some (Wrap err (errGetPolicy pkg))), IsBucketPolicyMember cr, r')
      \<and> Create pkg e ctx (IsBucketPolicyMember cr) r
        = ((ExternalCreation, Some (Wrap err (errGetPolicy pkg))), IsBucketPolicyMember cr, r')
      \<and> Update pkg e ctx (IsBucketPolicyMember cr) r
        = ((ExternalUpdate, Some (Wrap err (errGetPolicy pkg))), IsBucketPolicyMember cr, r')
      \<and> Delete pkg e ctx (IsBucketPolicyMember cr) r
        = (Some (Wrap err (errGetPolicy pkg)), IsBucketPolicyMember cr, r')"
    if "GetIamPolicy_Do e (bucketName pkg cr) (PolicyVersion pkg) ctx r = (Inl err, r')"
    using that
    by (simp add: Observe_fetch_failed Create_fetch_failed Delete_fetch_failed Update_Create)
  have create_write:
    "Create pkg e ctx (IsBucketPolicyMember cr) r
        = ((ExternalCreation, Some (Wrap err (errSetPolicy pkg))), IsBucketPolicyMember cr, r'')
      \<and> Update pkg e ctx (IsBucketPolicyMember cr) r
        = ((ExternalUpdate, Some (Wrap err (errSetPolicy pkg))), IsBucketPolicyMember cr, r'')"
    if "GetIamPolicy_Do e (bucketName pkg cr) (PolicyVersion pkg) ctx r = (Inr policy, r')"
      and "fst (BindRoleToMember pkg (ForProvider cr) policy)"
      and "SetIamPolicy_Do e (bucketName pkg cr)
             (snd (BindRoleToMember pkg (ForProvider cr) policy)) ctx r' = (Inl err, r'')"
    using that by (simp add: Create_write_failed Update_Create)
  have delete_write:
    "Delete pkg e ctx (IsBucketPolicyMember cr) r
        = (Some (Wrap err (errSetPolicy pkg)), IsBucketPolicyMember cr, r'')"
    if "GetIamPolicy_Do e (bucketName pkg cr) (PolicyVersion pkg) ctx r = (Inr policy, r')"
      and "fst (UnbindRoleFromMember pkg (ForProvider cr) policy)"
      and "SetIamPolicy_Do e (bucketName pkg cr)
             (snd (UnbindRoleFromMember pkg (ForProvider cr) policy)) ctx r' = (Inl err, r'')"
    using that by (simp add: Delete_write_failed)
  from fetch_stage create_write delete_write show ?thesis
    by simp
qed

theorem failures_wrapped_by_call_kind_witness:
  "GetIamPolicy_Do memStore (bucketName samplePkg viewerA) (PolicyVersion samplePkg) ()
      (startAt noBucket)
     = (Inl NotFound, \<lparr>calls = [GetCall ''b'' 3 () (Inl NotFound)], world = noBucket\<rparr>)
   \<and> fst (Delete samplePkg memStore () (IsBucketPolicyMember viewerA) (startAt noBucket))
     = Some (Wrap NotFound ''cannot get policy'')
   \<and> GetIamPolicy_Do contendedStore (bucketName samplePkg viewerA) (PolicyVersion samplePkg) ()
      (startAt (oneBucket docEmpty))
     = (Inr docEmpty,
        \<lparr>calls = [GetCall ''b'' 3 () (Inr docEmpty)], world = oneBucket docEmpty\<rparr>)
   \<and> fst (BindRoleToMember samplePkg (ForProvider viewerA) docEmpty)
   \<and> SetIamPolicy_Do contendedStore (bucketName samplePkg viewerA)
        (snd (BindRoleToMember samplePkg (ForProvider viewerA) docEmpty)) ()
        \<lparr>calls = [GetCall ''b'' 3 () (Inr docEmpty)], world = oneBucket docEmpty\<rparr>
     = (Inl VersionConflict,
        \<lparr>calls = [GetCall ''b'' 3 () (Inr docEmpty),
                  SetCall ''b'' docViewerA () (Inl VersionConflict)],
         world = oneBucket docEmpty\<rparr>)
   \<and> snd (fst (Create samplePkg contendedStore () (IsBucketPolicyMember viewerA)
        (startAt (oneBucket docEmpty))))
     = Some (Wrap VersionConflict ''cannot set policy'')
   \<and> GetIamPolicy_Do contendedStore (bucketName samplePkg viewerA) (PolicyVersion samplePkg) ()
      (startAt (oneBucket docViewerA))
     = (Inr docViewerA,
        \<lparr>calls = [GetCall ''b'' 3 () (Inr docViewerA)], world = oneBucket docViewerA\<rparr>)
   \<and> fst (UnbindRoleFromMember samplePkg (ForProvider viewerA) docViewerA)
   \<and> SetIamPolicy_Do contendedStore (bucketName samplePkg viewerA)
        (snd (UnbindRoleFromMember samplePkg (ForProvider viewerA) docViewerA)) ()
        \<lparr>calls = [GetCall ''b'' 3 () (Inr docViewerA)], world = oneBucket docViewerA\<rparr>
     = (Inl VersionConflict,
        \<lparr>calls = [GetCall ''b'' 3 () (Inr docViewerA),
                  SetCall ''b'' docEmpty () (Inl VersionConflict)],
         world = oneBucket docViewerA\<rparr>)
   \<and> fst (Delete samplePkg contendedStore () (IsBucketPolicyMember viewerA)
        (startAt (oneBucket docViewerA)))
     = Some (Wrap VersionConflict ''cannot set policy'')
   \<and> errGetPolicy samplePkg \<noteq> errSetPolicy samplePkg
   \<and> Wrap NotFound (errGetPolicy samplePkg) \<noteq> Wrap NotFound (errSetPolicy samplePkg)"
proof -
  have fetchN:
    "GetIamPolicy_Do memStore (bucketName samplePkg viewerA) (PolicyVersion samplePkg) ()
      (startAt noBucket)
     = (Inl NotFound, \<lparr>calls = [GetCall ''b'' 3 () (Inl NotFound)], world = noBucket\<rparr>)"
    by (simp add: sample_defs)
  have fetchE:
    "GetIamPolicy_Do contendedStore (bucketName samplePkg viewerA) (PolicyVersion samplePkg) ()
      (startAt (oneBucket docEmpty))
     = (Inr docEmpty,
        \<lparr>calls = [GetCall ''b'' 3 () (Inr docEmpty)], world = oneBucket docEmpty\<rparr>)"
    by (simp add: sample_defs)
  have fetchA:
    "GetIamPolicy_Do contendedStore (bucketName samplePkg viewerA) (PolicyVersion samplePkg) ()
      (startAt (oneBucket docViewerA))
     = (Inr docViewerA,
        \<lparr>calls = [GetCall ''b'' 3 () (Inr docViewerA)], world = oneBucket docViewerA\<rparr>)"
    by (simp add: sample_defs)
  have missing: "fst (BindRoleToMember samplePkg (ForProvider viewerA) docEmpty)"
    by (simp add: sample_defs)
  have present: "fst (UnbindRoleFromMember samplePkg (ForProvider viewerA) docViewerA)"
    by (simp add: sample_defs)
  have sentE:
    "SetIamPolicy_Do contendedStore (bucketName samplePkg viewerA)
        (snd (BindRoleToMember samplePkg (ForProvider viewerA) docEmpty)) ()
        \<lparr>calls = [GetCall ''b'' 3 () (Inr docEmpty)], world = oneBucket docEmpty\<rparr>
     = (Inl VersionConflict,
        \<lparr>calls = [GetCall ''b'' 3 () (Inr docEmpty),
                  SetCall ''b'' docViewerA () (Inl VersionConflict)],
         world = oneBucket docEmpty\<rparr>)"
    by (simp add: sample_defs)
  have sentA:
    "SetIamPolicy_Do contendedStore (bucketName samplePkg viewerA)
        (snd (UnbindRoleFromMember samplePkg (ForProvider viewerA) docViewerA)) ()
        \<lparr>calls = [GetCall ''b'' 3 () (Inr docViewerA)], world = oneBucket docViewerA\<rparr>
     = (Inl VersionConflict,
        \<lparr>calls = [GetCall ''b'' 3 () (Inr docViewerA),
                  SetCall ''b'' docEmpty () (Inl VersionConflict)],
         world = oneBucket docViewerA\<rparr>)"
    by (simp add: sample_defs)
  have messages:
    "errGetPolicy samplePkg = ''cannot get policy''"
    "errSetPolicy samplePkg = ''cannot set policy''"
    by (simp_all add: samplePkg_def)
  note at_fetch = failures_wrapped_by_call_kind [where e = memStore and pkg = samplePkg
      and cr = viewerA and ctx = "()" and r = "startAt noBucket" and err = NotFound
      and r' = "\<lparr>calls = [GetCall ''b'' 3 () (Inl NotFound)], world = noBucket\<rparr>"]
  note at_create_write = failures_wrapped_by_call_kind [where e = contendedStore
      and pkg = samplePkg and cr = viewerA and ctx = "()"
      and r = "startAt (oneBucket docEmpty)" and policy = docEmpty and err = VersionConflict
      and r' = "\<lparr>calls = [GetCall ''b'' 3 () (Inr docEmpty)], world = oneBucket docEmpty\<rparr>"
      and r'' = "\<lparr>calls = [GetCall ''b'' 3 () (Inr docEmpty),
                  SetCall ''b'' docViewerA () (Inl VersionConflict)],
         world = oneBucket docEmpty\<rparr>"]
  note at_delete_write = failures_wrapped_by_call_kind [where e = contendedStore
      and pkg = samplePkg and cr = viewerA and ctx = "()"
      and r = "startAt (oneBucket docViewerA)" and policy = docViewerA and err = VersionConflict
      and r' = "\<lparr>calls = [GetCall ''b'' 3 () (Inr docViewerA)], world = oneBucket docViewerA\<rparr>"
      and r'' = "\<lparr>calls = [GetCall ''b'' 3 () (Inr docViewerA),
                  SetCall ''b'' docEmpty () (Inl VersionConflict)],
         world = oneBucket docViewerA\<rparr>"]
  from at_fetch fetchN have
    "fst (Delete samplePkg memStore () (IsBucketPolicyMember viewerA) (startAt noBucket))
       = Some (Wrap NotFound ''cannot get policy'')"
    by (simp add: messages)
  moreover from at_create_write fetchE missing sentE have
    "snd (fst (Create samplePkg contendedStore () (IsBucketPolicyMember viewerA)
        (startAt (oneBucket docEmpty))))
     = Some (Wrap VersionConflict ''cannot set policy'')"
    by (simp add: messages)
  moreover from at_delete_write fetchA present sentA have
    "fst (Delete samplePkg contendedStore () (IsBucketPolicyMember viewerA)
        (startAt (oneBucket docViewerA)))
     = Some (Wrap VersionConflict ''cannot set policy'')"
    by (simp add: messages)
  ultimately show ?thesis
    using fetchN fetchE fetchA missing present sentE sentA by (simp add: messages)
qed

subsection \<open>The requested policy version\<close>

lemma specPolicyVersion_Max: "specPolicyVersion s = Max (set (supportedVersions s))"
  by (simp only: specPolicyVersion_def supportedVersions_def Max.set_eq_fold)

lemma specPolicyVersion_richest: "richestSupported s (specPolicyVersion s)"
proof -
  have "finite (set (supportedVersions s))" and "set (supportedVersions s) \<noteq> {}"
    by (simp_all add: supportedVersions_def)
  then have "Max (set (supportedVersions s)) \<in> set (supportedVersions s)"
    and "\<forall>u \<in> set (supportedVersions s). u \<le> Max (set (supportedVersions s))"
    by (simp_all del: set_simps)
  then show ?thesis
    by (simp only: richestSupported_def specPolicyVersion_Max simp_thms)
qed

lemma Observe_versions:
  "requestedVersions (issued r (snd (snd (Observe pkg e ctx (IsBucketPolicyMember cr) r))))
     = [PolicyVersion pkg]"
  using Observe_issued [of r pkg e ctx cr] by auto

lemma Create_versions:
  "requestedVersions (issued r (snd (snd (Create pkg e ctx (IsBucketPolicyMember cr) r))))
     = [PolicyVersion pkg]"
  using Create_issued [of r pkg e ctx cr] by auto

lemma Update_versions:
  "requestedVersions (issued r (snd (snd (Update pkg e ctx (IsBucketPolicyMember cr) r))))
     = [PolicyVersion pkg]"
  by (simp add: Update_Create Create_versions)

lemma Delete_versions:
  "requestedVersions (issued r (snd (snd (Delete pkg e ctx (IsBucketPolicyMember cr) r))))
     = [PolicyVersion pkg]"
  using Delete_issued [of r pkg e ctx cr] by auto

lemma other_kind_versions:
  "requestedVersions (issued r (snd (snd (Observe pkg e ctx NotBucketPolicyMember r)))) = []"
  "requestedVersions (issued r (snd (snd (Create pkg e ctx NotBucketPolicyMember r)))) = []"
  "requestedVersions (issued r (snd (snd (Update pkg e ctx NotBucketPolicyMember r)))) = []"
  "requestedVersions (issued r (snd (snd (Delete pkg e ctx NotBucketPolicyMember r)))) = []"
  by (simp_all add: Observe_not_member Create_not_member Delete_not_member Update_Create
      issued_self)

lemma richestSupported_unique:
  "richestSupported s v \<Longrightarrow> richestSupported s w \<Longrightarrow> v = w"
  by (auto simp: richestSupported_def intro: antisym)

text \<open>
  C9. Every policy fetch issued by \<open>Observe\<close>, \<open>Create\<close> (hence \<open>Update\<close>) and
  \<open>Delete\<close> carries the constant \<open>PolicyVersion\<close> as its requested policy version, and
  each verb issues exactly one fetch on a BucketPolicyMember. With the constant as the
  specification has it, the greatest of the versions the store supports, every fetch of
  every verb requests the richest version the store supports.
\<close>

theorem fetch_requests_PolicyVersion:
  "requestedVersions (issued r (snd (snd (Observe pkg e ctx (IsBucketPolicyMember cr) r))))
      = [PolicyVersion pkg]
   \<and> requestedVersions (issued r (snd (snd (Create pkg e ctx (IsBucketPolicyMember cr) r))))
      = [PolicyVersion pkg]
   \<and> requestedVersions (issued r (snd (snd (Update pkg e ctx (IsBucketPolicyMember cr) r))))
      = [PolicyVersion pkg]
   \<and> requestedVersions (issued r (snd (snd (Delete pkg e ctx (IsBucketPolicyMember cr) r))))
      = [PolicyVersion pkg]
   \<and> list_all (richestSupported s)
        (requestedVersions (issued r (snd (snd
           (Observe (pkg\<lparr>PolicyVersion := specPolicyVersion s\<rparr>) e ctx mg r)))))
   \<and> list_all (richestSupported s)
        (requestedVersions (issued r (snd (snd
           (Create (pkg\<lparr>PolicyVersion := specPolicyVersion s\<rparr>) e ctx mg r)))))
   \<and> list_all (richestSupported s)
        (requestedVersions (issued r (snd (snd
           (Update (pkg\<lparr>PolicyVersion := specPolicyVersion s\<rparr>) e ctx mg r)))))
   \<and> list_all (richestSupported s)
        (requestedVersions (issued r (snd (snd
           (Delete (pkg\<lparr>PolicyVersion := specPolicyVersion s\<rparr>) e ctx mg r)))))"
proof -
  note richest = specPolicyVersion_richest [of s]
  then show ?thesis
    by (cases mg)
       (simp_all add: Observe_versions Create_versions Update_versions Delete_versions
          other_kind_versions)
qed

theorem fetch_requests_PolicyVersion_witness:
  "supportedVersions sampleVersions = [1, 3]
   \<and> specPolicyVersion sampleVersions = 3
   \<and> richestSupported sampleVersions 3
   \<and> samplePkg\<lparr>PolicyVersion := specPolicyVersion sampleVersions\<rparr> = samplePkg
   \<and> requestedVersions (issued (startAt (oneBucket docEmpty))
        (snd (snd (Create samplePkg memStore () (IsBucketPolicyMember viewerA)
           (startAt (oneBucket docEmpty)))))) = [3]
   \<and> list_all (richestSupported sampleVersions)
        (requestedVersions (issued (startAt (oneBucket docEmpty))
          (snd (snd (Create samplePkg memStore () (IsBucketPolicyMember viewerA)
             (startAt (oneBucket docEmpty)))))))"
proof -
  have versions: "supportedVersions sampleVersions = [1, 3]"
    by (simp add: supportedVersions_def sampleVersions_def)
  have chosen: "specPolicyVersion sampleVersions = 3"
    by (simp add: specPolicyVersion_def sampleVersions_def)
  have richest: "richestSupported sampleVersions 3"
    by (simp add: richestSupported_def versions)
  have same: "samplePkg\<lparr>PolicyVersion := specPolicyVersion sampleVersions\<rparr> = samplePkg"
    by (simp add: chosen samplePkg_def)
  have version: "PolicyVersion samplePkg = 3"
    by (simp add: samplePkg_def)
  from fetch_requests_PolicyVersion [where pkg = samplePkg and s = sampleVersions
      and e = memStore and cr = viewerA and ctx = "()" and r = "startAt (oneBucket docEmpty)"
      and mg = "IsBucketPolicyMember viewerA"]
    versions chosen richest same
  show ?thesis
    by (simp add: version)
qed

subsection \<open>What Observe writes to the managed resource\<close>

text \<open>
  C10. \<open>Observe\<close> changes the managed resource it is given only in the up-to-date
  case: when the fetch succeeds and the resolver reports \<open>changed = false\<close>, the
  resource comes back with the Available condition set on its status and nothing else
  changed; on the drift branch, on a failed fetch and on a resource of another kind, it
  comes back exactly as it was.
\<close>

theorem Observe_status_frame:
  "(GetIamPolicy_Do e (bucketName pkg cr) (PolicyVersion pkg) ctx r = (Inr policy, r') \<longrightarrow>
      (\<not> fst (BindRoleToMember pkg (ForProvider cr) policy) \<longrightarrow>
         fst (snd (Observe pkg e ctx (IsBucketPolicyMember cr) r))
           = IsBucketPolicyMember (cr\<lparr>Status := SetConditionsAvailable pkg (Status cr)\<rparr>))
      \<and> (fst (BindRoleToMember pkg (ForProvider cr) policy) \<longrightarrow>
         fst (snd (Observe pkg e ctx (IsBucketPolicyMember cr) r)) = IsBucketPolicyMember cr))
   \<and> (GetIamPolicy_Do e (bucketName pkg cr) (PolicyVersion pkg) ctx r = (Inl err, r') \<longrightarrow>
        fst (snd (Observe pkg e ctx (IsBucketPolicyMember cr) r)) = IsBucketPolicyMember cr)
   \<and> fst (snd (Observe pkg e ctx NotBucketPolicyMember r)) = NotBucketPolicyMember"
  by (simp add: Observe_up_to_date Observe_drifted Observe_fetch_failed Observe_not_member)

theorem Observe_status_frame_witness:
  "GetIamPolicy_Do memStore (bucketName samplePkg viewerA) (PolicyVersion samplePkg) ()
      (startAt (oneBucket docViewerA))
     = (Inr docViewerA,
        \<lparr>calls = [GetCall ''b'' 3 () (Inr docViewerA)], world = oneBucket docViewerA\<rparr>)
   \<and> \<not> fst (BindRoleToMember samplePkg (ForProvider viewerA) docViewerA)
   \<and> fst (snd (Observe samplePkg memStore () (IsBucketPolicyMember viewerA)
        (startAt (oneBucket docViewerA))))
       = IsBucketPolicyMember (viewerA\<lparr>Status := [''Available'']\<rparr>)
   \<and> GetIamPolicy_Do memStore (bucketName samplePkg viewerA) (PolicyVersion samplePkg) ()
      (startAt (oneBucket docEmpty))
     = (Inr docEmpty,
        \<lparr>calls = [GetCall ''b'' 3 () (Inr docEmpty)], world = oneBucket docEmpty\<rparr>)
   \<and> fst (BindRoleToMember samplePkg (ForProvider viewerA) docEmpty)
   \<and> fst (snd (Observe samplePkg memStore () (IsBucketPolicyMember viewerA)
        (startAt (oneBucket docEmpty))))
       = IsBucketPolicyMember viewerA
   \<and> GetIamPolicy_Do memStore (bucketName samplePkg viewerA) (PolicyVersion samplePkg) ()
      (startAt noBucket)
     = (Inl NotFound, \<lparr>calls = [GetCall ''b'' 3 () (Inl NotFound)], world = noBucket\<rparr>)
   \<and> fst (snd (Observe samplePkg memStore () (IsBucketPolicyMember viewerA)
        (startAt noBucket)))
       = IsBucketPolicyMember viewerA"
proof -
  have fetchA:
    "GetIamPolicy_Do memStore (bucketName samplePkg viewerA) (PolicyVersion samplePkg) ()
      (startAt (oneBucket docViewerA))
     = (Inr docViewerA,
        \<lparr>calls = [GetCall ''b'' 3 () (Inr docViewerA)], world = oneBucket docViewerA\<rparr>)"
    by (simp add: sample_defs)
  have fetchE:
    "GetIamPolicy_Do memStore (bucketName samplePkg viewerA) (PolicyVersion samplePkg) ()
      (startAt (oneBucket docEmpty))
     = (Inr docEmpty,
        \<lparr>calls = [GetCall ''b'' 3 () (Inr docEmpty)], world = oneBucket docEmpty\<rparr>)"
    by (simp add: sample_defs)
  have fetchN:
    "GetIamPolicy_Do memStore (bucketName samplePkg viewerA) (PolicyVersion samplePkg) ()
      (startAt noBucket)
     = (Inl NotFound, \<lparr>calls = [GetCall ''b'' 3 () (Inl NotFound)], world = noBucket\<rparr>)"
    by (simp add: sample_defs)
  have present: "\<not> fst (BindRoleToMember samplePkg (ForProvider viewerA) docViewerA)"
    by (simp add: sample_defs)
  have missing: "fst (BindRoleToMember samplePkg (ForProvider viewerA) docEmpty)"
    by (simp add: sample_defs)
  have available:
    "viewerA\<lparr>Status := SetConditionsAvailable samplePkg (Status viewerA)\<rparr>
       = viewerA\<lparr>Status := [''Available'']\<rparr>"
    by (simp add: samplePkg_def viewerA_def)
  note up_to_date = Observe_status_frame [where e = memStore and pkg = samplePkg
      and cr = viewerA and ctx = "()" and r = "startAt (oneBucket docViewerA)"
      and policy = docViewerA
      and r' = "\<lparr>calls = [GetCall ''b'' 3 () (Inr docViewerA)], world = oneBucket docViewerA\<rparr>"]
  note drifted = Observe_status_frame [where e = memStore and pkg = samplePkg
      and cr = viewerA and ctx = "()" and r = "startAt (oneBucket docEmpty)"
      and policy = docEmpty
      and r' = "\<lparr>calls = [GetCall ''b'' 3 () (Inr docEmpty)], world = oneBucket docEmpty\<rparr>"]
  note failed = Observe_status_frame [where e = memStore and pkg = samplePkg
      and cr = viewerA and ctx = "()" and r = "startAt noBucket" and err = NotFound
      and r' = "\<lparr>calls = [GetCall ''b'' 3 () (Inl NotFound)], world = noBucket\<rparr>"]
  from up_to_date fetchA present have
    "fst (snd (Observe samplePkg memStore () (IsBucketPolicyMember viewerA)
        (startAt (oneBucket docViewerA))))
       = IsBucketPolicyMember (viewerA\<lparr>Status := [''Available'']\<rparr>)"
    by (simp add: available)
  moreover from drifted fetchE missing have
    "fst (snd (Observe samplePkg memStore () (IsBucketPolicyMember viewerA)
        (startAt (oneBucket docEmpty))))
       = IsBucketPolicyMember viewerA"
    by simp
  moreover from failed fetchN have
    "fst (snd (Observe samplePkg memStore () (IsBucketPolicyMember viewerA)
        (startAt noBucket)))
       = IsBucketPolicyMember viewerA"
    by simp
  ultimately show ?thesis
    using fetchA fetchE fetchN present missing by simp
qed

end
